theory Spec2Isabelle
  imports Complex_Main
begin

section \<open>Task-set generation and progress tracking of the STM automator\<close>

text \<open>
  A shallow embedding of \<^verbatim>\<open>src/ui/native/taskset.py\<close> (classes \<^verbatim>\<open>TaskSetBar\<close>,
  \<^verbatim>\<open>TaskItem\<close>, \<^verbatim>\<open>TaskSet\<close>) and of the two schedule estimators of \<^verbatim>\<open>src/ui/app.py\<close>
  (\<^verbatim>\<open>update_total_images\<close>, \<^verbatim>\<open>update_time_to_finish\<close>).

  Numbers. Python's \<^verbatim>\<open>float\<close> is modelled by \<^typ>\<open>real\<close> with exact arithmetic: the rounding
  of binary64 is not part of the model. Every concrete evaluation below that refutes a
  statement uses dyadic inputs (\<open>0\<close>, \<open>1\<close>, \<open>3/4\<close>, \<open>1/2\<close>, ...) on which binary64
  computes the same values without rounding that changes the result. Python's \<^verbatim>\<open>int\<close> is \<^typ>\<open>int\<close>.

  Exceptions. A function that only computes returns \<open>error + 'a\<close> (\<open>Inl\<close> the exception). A method
  that mutates its object before it may raise returns the object as it is left behind together
  with the exception, if any.
\<close>

subsection \<open>Exceptions and Python arithmetic\<close>

text \<open>
  The exceptions the Python runtime raises in the modelled code. The source defines no
  exception class of its own and has no \<^verbatim>\<open>try\<close>, \<^verbatim>\<open>raise\<close> or \<^verbatim>\<open>assert\<close>.
\<close>

datatype error = ZeroDivisionError | IndexError

text \<open>\<^verbatim>\<open>a // b\<close> on floats: floor of the quotient, \<^verbatim>\<open>ZeroDivisionError\<close> when \<^verbatim>\<open>b\<close> is zero.\<close>

definition py_floordiv :: "real \<Rightarrow> real \<Rightarrow> error + real" where
  "py_floordiv a b = (if b = 0 then Inl ZeroDivisionError else Inr (of_int \<lfloor>a / b\<rfloor>))"

text \<open>\<^verbatim>\<open>a / b\<close> on two ints (true division), as in \<^verbatim>\<open>len(xs) / len(ys)\<close>.\<close>

definition py_truediv :: "int \<Rightarrow> int \<Rightarrow> error + real" where
  "py_truediv a b = (if b = 0 then Inl ZeroDivisionError else Inr (of_int a / of_int b))"

text \<open>\<^verbatim>\<open>int(x)\<close> on a float truncates toward zero.\<close>

definition py_int :: "real \<Rightarrow> int" where
  "py_int x = (if x < 0 then \<lceil>x\<rceil> else \<lfloor>x\<rfloor>)"

text \<open>\<^verbatim>\<open>str(n)\<close> of an int, as the f-strings of the source format it.\<close>

fun str_nat :: "nat \<Rightarrow> string" where
  "str_nat n =
     (if n < 10 then [char_of (48 + n)]
      else str_nat (n div 10) @ [char_of (48 + n mod 10)])"

declare str_nat.simps [simp del]

definition str_int :: "int \<Rightarrow> string" where
  "str_int i = (if i < 0 then CHR ''-'' # str_nat (nat (- i)) else str_nat (nat i))"

text \<open>
  \<^verbatim>\<open>numpy.arange(start, stop, step)\<close> on Python floats (library code, not part of the
  repository): the length is \<open>ceil((stop - start) / step)\<close>, the division being Python's and
  raising \<^verbatim>\<open>ZeroDivisionError\<close> for a zero step; a length that is not positive gives the empty
  array; element \<open>i\<close> is \<open>start + i * delta\<close> with \<open>delta = (start + step) - start\<close>.
\<close>

definition np_arange :: "real \<Rightarrow> real \<Rightarrow> real \<Rightarrow> error + real list" where
  "np_arange start stop step =
     (if step = 0 then Inl ZeroDivisionError
      else let len = \<lceil>(stop - start) / step\<rceil>;
               delta = (start + step) - start
           in Inr (map (\<lambda>i. start + real i * delta) [0..<nat len]))"

subsection \<open>Data model\<close>

text \<open>
  Modelled from the spec: \<^verbatim>\<open>core/exponentialnumber.py\<close> is not among the sources. The source
  constructs \<^verbatim>\<open>ExponentialNumber(200, -3)\<close> from a mantissa and an exponent, and the
  specification gives its value as mantissa times ten to the exponent. \<^verbatim>\<open>from_float\<close> is not
  determined by the specification (only that it normalises), so every function that calls it
  takes it as the parameter \<open>from_float\<close>.
\<close>

record ExponentialNumber =
  mantissa :: real
  exponent :: int

definition to_float :: "ExponentialNumber \<Rightarrow> real" where
  "to_float x = mantissa x * 10 powi exponent x"

datatype SweepParameter = SweepParameter_none | SweepParameter_bias | SweepParameter_size

datatype TaskType = Image | PointSpectroscopy

text \<open>
  Modelled from the spec: \<^verbatim>\<open>core/tasksetdata.py\<close>, \<^verbatim>\<open>core/imagedata.py\<close> and
  \<^verbatim>\<open>core/taskdata.py\<close> are not among the sources. The fields are those the source reads
  (\<^verbatim>\<open>TaskSetInfo.__init__\<close>, \<^verbatim>\<open>TaskSet.create_tasks\<close>, \<^verbatim>\<open>TaskItem.__init__\<close>) and the
  specification lists; \<^verbatim>\<open>ImageData(data)\<close> copies the base parameters, and \<^verbatim>\<open>completed\<close>
  defaults to false. The image's fields carry the prefix \<open>img_\<close> and the field \<^verbatim>\<open>size\<close> is
  \<open>size_m\<close>, as one theory cannot hold two records with the same field names nor a field
  named like the constant \<open>size\<close>.
\<close>

record TaskSetData =
  bias :: ExponentialNumber
  set_point :: ExponentialNumber
  size_m :: ExponentialNumber
  x_offset :: ExponentialNumber
  y_offset :: ExponentialNumber
  scan_speed :: ExponentialNumber
  line_time :: ExponentialNumber
  lines_per_frame :: int
  repetitions :: int
  time_to_finish :: string
  sweep_parameter :: SweepParameter
  sweep_start :: ExponentialNumber
  sweep_stop :: ExponentialNumber
  sweep_step :: ExponentialNumber

record ImageData =
  img_bias :: ExponentialNumber
  img_set_point :: ExponentialNumber
  img_size :: ExponentialNumber
  img_x_offset :: ExponentialNumber
  img_y_offset :: ExponentialNumber
  img_scan_speed :: ExponentialNumber
  img_line_time :: ExponentialNumber
  img_lines_per_frame :: int

definition ImageData_init :: "TaskSetData \<Rightarrow> ImageData" where
  "ImageData_init d =
     \<lparr>img_bias = bias d, img_set_point = set_point d, img_size = size_m d,
      img_x_offset = x_offset d, img_y_offset = y_offset d, img_scan_speed = scan_speed d,
      img_line_time = line_time d, img_lines_per_frame = lines_per_frame d\<rparr>"

record TaskData =
  inner :: ImageData
  dtype :: TaskType
  completed :: bool

datatype Status = Ready | Working | Finished | Error

text \<open>\<^verbatim>\<open>TaskSetBar\<close>: the progress value and the two colours (\<^verbatim>\<open>QColor(r, g, b)\<close>, \<^verbatim>\<open>None\<close> at first).\<close>

record TaskSetBar =
  bar_value :: real
  background_color :: "(nat \<times> nat \<times> nat) option"
  bar_color :: "(nat \<times> nat \<times> nat) option"

text \<open>
  \<^verbatim>\<open>TaskSet\<close>. Each \<^verbatim>\<open>TaskItem\<close> of \<^verbatim>\<open>self._info.task_items\<close> holds a reference to the
  \<^verbatim>\<open>TaskData\<close> at the same position of \<^verbatim>\<open>self.tasks\<close> (\<^verbatim>\<open>TaskSetInfo.__init__\<close> wraps them in
  order), so the one list \<open>tasks\<close> stands for both.
\<close>

record TaskSet =
  status :: Status
  index :: int
  data :: TaskSetData
  tasks :: "TaskData list"
  task_bar :: TaskSetBar
  selected :: bool

subsection \<open>The task bar\<close>

definition clamp10 :: "real \<Rightarrow> real" where
  "clamp10 v = max (min v 1) 0"

definition TaskSetBar_init :: "real \<Rightarrow> TaskSetBar" where
  "TaskSetBar_init v = \<lparr>bar_value = clamp10 v, background_color = None, bar_color = None\<rparr>"

fun updateColor :: "Status \<Rightarrow> TaskSetBar \<Rightarrow> TaskSetBar" where
  "updateColor Ready b =
     b\<lparr>background_color := Some (235, 235, 235), bar_color := Some (200, 200, 200)\<rparr>"
| "updateColor Working b =
     b\<lparr>background_color := Some (102, 157, 246), bar_color := Some (21, 101, 192)\<rparr>"
| "updateColor Finished b =
     b\<lparr>background_color := Some (66, 219, 99), bar_color := Some (66, 219, 99)\<rparr>"
| "updateColor Error b =
     b\<lparr>background_color := Some (255, 78, 78), bar_color := Some (255, 41, 41)\<rparr>"

subsection \<open>The sweep expander: \<^verbatim>\<open>TaskSet.create_tasks\<close>\<close>

text \<open>One work item of the bias loop and of the size loop.\<close>

definition bias_task :: "(real \<Rightarrow> ExponentialNumber) \<Rightarrow> TaskSetData \<Rightarrow> real \<Rightarrow> TaskData" where
  "bias_task from_float d v =
     \<lparr>inner = (ImageData_init d)\<lparr>img_bias := from_float v\<rparr>, dtype = Image, completed = False\<rparr>"

definition size_task :: "(real \<Rightarrow> ExponentialNumber) \<Rightarrow> TaskSetData \<Rightarrow> real \<Rightarrow> TaskData" where
  "size_task from_float d v =
     \<lparr>inner = (ImageData_init d)\<lparr>img_size := from_float v\<rparr>, dtype = Image, completed = False\<rparr>"

definition create_tasks :: "(real \<Rightarrow> ExponentialNumber) \<Rightarrow> TaskSetData \<Rightarrow> error + TaskData list" where
  "create_tasks from_float d =
     (case sweep_parameter d of
        SweepParameter_none \<Rightarrow>
          Inr [\<lparr>inner = ImageData_init d, dtype = Image, completed = False\<rparr>]
      | SweepParameter_bias \<Rightarrow>
          (case np_arange (to_float (sweep_start d))
                  (to_float (sweep_stop d) + to_float (sweep_step d))
                  (to_float (sweep_step d)) of
             Inl e \<Rightarrow> Inl e
           | Inr bias_range \<Rightarrow> Inr (map (bias_task from_float d) bias_range))
      | SweepParameter_size \<Rightarrow>
          (case np_arange (to_float (sweep_start d))
                  (to_float (sweep_stop d) + to_float (sweep_step d))
                  (to_float (sweep_step d)) of
             Inl e \<Rightarrow> Inl e
           | Inr size_range \<Rightarrow> Inr (map (size_task from_float d) size_range)))"

subsection \<open>The task set: construction, status and progress\<close>

text \<open>
  \<^verbatim>\<open>TaskSet.__init__\<close>: the status is \<^verbatim>\<open>Ready\<close>, the tasks are those of \<^verbatim>\<open>create_tasks\<close> (whose
  exception leaves no task set), the bar starts at \<open>0\<close> with the colours of \<^verbatim>\<open>Ready\<close>.
  The progress is not computed here.
\<close>

definition TaskSet_init ::
  "(real \<Rightarrow> ExponentialNumber) \<Rightarrow> TaskSetData \<Rightarrow> int \<Rightarrow> error + TaskSet" where
  "TaskSet_init from_float d idx =
     (case create_tasks from_float d of
        Inl e \<Rightarrow> Inl e
      | Inr ts \<Rightarrow>
          Inr \<lparr>status = Ready, index = idx, data = d, tasks = ts,
               task_bar = updateColor Ready (TaskSetBar_init 0), selected = False\<rparr>)"

text \<open>\<^verbatim>\<open>TaskItem.set_completed\<close>: one assignment to the item's data.\<close>

definition set_completed :: "bool \<Rightarrow> TaskData \<Rightarrow> TaskData" where
  "set_completed val t = t\<lparr>completed := val\<rparr>"

text \<open>
  The executor's call \<^verbatim>\<open>ts._info.task_items[i].set_completed(val)\<close>: indexing the list
  raises \<^verbatim>\<open>IndexError\<close> out of range, and then nothing is changed.
\<close>

definition item_set_completed :: "nat \<Rightarrow> bool \<Rightarrow> TaskSet \<Rightarrow> TaskSet \<times> error option" where
  "item_set_completed i val ts =
     (if i < length (tasks ts)
      then (ts\<lparr>tasks := (tasks ts)[i := set_completed val (tasks ts ! i)]\<rparr>, None)
      else (ts, Some IndexError))"

text \<open>
  \<^verbatim>\<open>TaskSet.update_task_bar\<close>: the fraction of completed items, by a true division of the two
  lengths, stored in the bar without clamping.
\<close>

definition update_task_bar :: "TaskSet \<Rightarrow> TaskSet \<times> error option" where
  "update_task_bar ts =
     (let completed_tasks = filter completed (tasks ts) in
      case py_truediv (int (length completed_tasks)) (int (length (tasks ts))) of
        Inl e \<Rightarrow> (ts, Some e)
      | Inr val \<Rightarrow> (ts\<lparr>task_bar := (task_bar ts)\<lparr>bar_value := val\<rparr>\<rparr>, None))"

text \<open>
  \<^verbatim>\<open>TaskSet.setStatus\<close>: assigns the status, recolours the bar, then updates the bar; the
  two assignments stand when the update raises.
\<close>

definition setStatus :: "Status \<Rightarrow> TaskSet \<Rightarrow> TaskSet \<times> error option" where
  "setStatus s ts =
     update_task_bar (ts\<lparr>status := s, task_bar := updateColor s (task_bar ts)\<rparr>)"

definition setIndex :: "int \<Rightarrow> TaskSet \<Rightarrow> TaskSet" where
  "setIndex i ts = ts\<lparr>index := i\<rparr>"

subsection \<open>The schedule estimators of \<^verbatim>\<open>Ui_MainWindow\<close>\<close>

text \<open>
  The local \<^verbatim>\<open>N\<close> of both estimators:
  \<^verbatim>\<open>N = abs((start - stop) // step); N *= repetitions\<close>. The arguments are the resolved
  values (\<^verbatim>\<open>to_float()\<close>) of the three voltage widgets and the value of the repetitions box.
\<close>

definition images_N :: "real \<Rightarrow> real \<Rightarrow> real \<Rightarrow> int \<Rightarrow> error + real" where
  "images_N start stop step reps =
     (case py_floordiv (start - stop) step of
        Inl e \<Rightarrow> Inl e
      | Inr q \<Rightarrow> Inr (\<bar>q\<bar> * of_int reps))"

text \<open>\<^verbatim>\<open>update_total_images\<close>: the text put on the label, or the exception.\<close>

definition update_total_images :: "real \<Rightarrow> real \<Rightarrow> real \<Rightarrow> int \<Rightarrow> error + string" where
  "update_total_images start stop step reps =
     (case images_N start stop step reps of
        Inl e \<Rightarrow> Inl e
      | Inr N \<Rightarrow> Inr (''Total images: '' @ str_int (py_int N)))"

text \<open>
  \<^verbatim>\<open>update_time_to_finish\<close>. \<open>total_time\<close> is line 346, \<open>duration_parts\<close> lines 348 to 351
  (floor divisions by the nonzero literals, each result through \<^verbatim>\<open>int\<close>), \<open>format_duration\<close>
  lines 352 to 355. \<open>ltime\<close> is the resolved line time and \<open>lpf\<close> the number read from
  the lines-per-frame combo box.
\<close>

definition total_time :: "real \<Rightarrow> real \<Rightarrow> real \<Rightarrow> real" where
  "total_time ltime lpf N = 2 * ltime * lpf * N"

definition duration_parts :: "real \<Rightarrow> int \<times> int \<times> int \<times> int" where
  "duration_parts t =
     (let days = py_int (of_int \<lfloor>t / (24 * 3600)\<rfloor>);
          hours = py_int (of_int \<lfloor>t / (60 * 60)\<rfloor>) - 24 * days;
          mins = py_int (of_int \<lfloor>t / 60\<rfloor>) - 60 * 24 * days - 60 * hours;
          secs = py_int t - 60 * 60 * 24 * days - 60 * 60 * hours - 60 * mins
      in (days, hours, mins, secs))"

definition format_duration :: "int \<times> int \<times> int \<times> int \<Rightarrow> string" where
  "format_duration p =
     (case p of (days, hours, mins, secs) \<Rightarrow>
        if days > 0
        then str_int days @ ''d '' @ str_int hours @ ''h '' @ str_int mins @ ''m ''
               @ str_int secs @ ''s''
        else str_int hours @ ''h '' @ str_int mins @ ''m '' @ str_int secs @ ''s'')"

definition update_time_to_finish ::
  "real \<Rightarrow> real \<Rightarrow> real \<Rightarrow> int \<Rightarrow> real \<Rightarrow> real \<Rightarrow> error + string" where
  "update_time_to_finish start stop step reps ltime lpf =
     (case images_N start stop step reps of
        Inl e \<Rightarrow> Inl e
      | Inr N \<Rightarrow>
          Inr (''Time to finish: ''
               @ format_duration (duration_parts (total_time ltime lpf N))))"

subsection \<open>Concrete inputs\<close>

text \<open>
  A \<open>from_float\<close> for the concrete instances: the value as mantissa, exponent \<open>0\<close>.
\<close>

definition unit_exponent :: "real \<Rightarrow> ExponentialNumber" where
  "unit_exponent x = \<lparr>mantissa = x, exponent = 0\<rparr>"

text \<open>
  A task-set description with the base parameters the main window starts with
  (\<^verbatim>\<open>app.py\<close>, lines 93 to 175) and the given sweep.
\<close>

definition sweep_data :: "SweepParameter \<Rightarrow> real \<Rightarrow> real \<Rightarrow> real \<Rightarrow> TaskSetData" where
  "sweep_data p a b s =
     \<lparr>bias = \<lparr>mantissa = 200, exponent = - 3\<rparr>,
      set_point = \<lparr>mantissa = 120, exponent = - 12\<rparr>,
      size_m = \<lparr>mantissa = 100, exponent = - 9\<rparr>,
      x_offset = \<lparr>mantissa = 0, exponent = - 9\<rparr>,
      y_offset = \<lparr>mantissa = 0, exponent = - 9\<rparr>,
      scan_speed = \<lparr>mantissa = 100, exponent = - 9\<rparr>,
      line_time = \<lparr>mantissa = 1, exponent = 0\<rparr>,
      lines_per_frame = 256, repetitions = 1, time_to_finish = ''1h 8m 16s'',
      sweep_parameter = p, sweep_start = unit_exponent a, sweep_stop = unit_exponent b,
      sweep_step = unit_exponent s\<rparr>"

text \<open>A task set of one image, in a given status and with the image's flag as given.\<close>

definition one_item_set :: "Status \<Rightarrow> bool \<Rightarrow> TaskSet" where
  "one_item_set s c =
     \<lparr>status = s, index = 0, data = sweep_data SweepParameter_none 0 0 1,
      tasks = [\<lparr>inner = ImageData_init (sweep_data SweepParameter_none 0 0 1),
                dtype = Image, completed = c\<rparr>],
      task_bar = updateColor s (TaskSetBar_init 0), selected = False\<rparr>"

text \<open>The task set that \<^verbatim>\<open>TaskSet.__init__\<close> builds around an empty list of tasks.\<close>

definition empty_set :: "TaskSetData \<Rightarrow> TaskSet" where
  "empty_set d =
     \<lparr>status = Ready, index = 0, data = d, tasks = [],
      task_bar = updateColor Ready (TaskSetBar_init 0), selected = False\<rparr>"

section \<open>Properties\<close>

subsection \<open>Auxiliary facts\<close>

lemma to_float_unit_exponent: "to_float (unit_exponent x) = x"
  by (simp add: to_float_def unit_exponent_def)




lemma np_arange_values:
  "s \<noteq> 0 \<Longrightarrow> np_arange a b s = Inr (map (\<lambda>i. a + real i * s) [0..<nat \<lceil>(b - a) / s\<rceil>])"
  by (simp add: np_arange_def)




lemma create_tasks_no_values:
  assumes "sweep_parameter d = SweepParameter_bias \<or> sweep_parameter d = SweepParameter_size"
    and "to_float (sweep_step d) \<noteq> 0"
    and "(to_float (sweep_stop d) + to_float (sweep_step d) - to_float (sweep_start d))
           / to_float (sweep_step d) \<le> 0"
  shows "create_tasks ff d = Inr []"
proof -
  have "\<lceil>(to_float (sweep_stop d) + to_float (sweep_step d) - to_float (sweep_start d))
           / to_float (sweep_step d)\<rceil> \<le> 0"
    using assms(3) by (simp add: ceiling_le_zero)
  then show ?thesis
    using assms(1,2) by (auto simp: create_tasks_def np_arange_values)
qed




lemma images_N_zero_step: "images_N start stop 0 reps = Inl ZeroDivisionError"
  by (simp add: images_N_def py_floordiv_def)








subsection \<open>Sweep expansion\<close>







text \<open>
  Claim C8. Without a sweep parameter \<^verbatim>\<open>create_tasks\<close> returns exactly one image, a copy of the
  base parameters, whatever the number of repetitions.
\<close>

theorem create_tasks_none:
  assumes "sweep_parameter d = SweepParameter_none"
  shows "create_tasks ff (d\<lparr>repetitions := r\<rparr>) =
           Inr [\<lparr>inner = ImageData_init d, dtype = Image, completed = False\<rparr>]"
  using assms by (simp add: create_tasks_def ImageData_init_def)

text \<open>Seven repetitions, one image.\<close>

theorem create_tasks_none_witness:
  "sweep_parameter (sweep_data SweepParameter_none 0 1 (1 / 2)) = SweepParameter_none \<and>
   create_tasks unit_exponent ((sweep_data SweepParameter_none 0 1 (1 / 2))\<lparr>repetitions := 7\<rparr>) =
     Inr [\<lparr>inner = ImageData_init (sweep_data SweepParameter_none 0 1 (1 / 2)), dtype = Image,
           completed = False\<rparr>]"
proof -
  have p: "sweep_parameter (sweep_data SweepParameter_none 0 1 (1 / 2)) = SweepParameter_none"
    by (simp add: sweep_data_def)
  show ?thesis using p create_tasks_none [OF p, of unit_exponent 7] by blast
qed

text \<open>
  Claim C10. There is a bias sweep with start below stop and a negative step on which
  \<^verbatim>\<open>create_tasks\<close> returns the empty list without an error, so that \<^verbatim>\<open>TaskSet.__init__\<close>
  builds a task set of no items, in status \<^verbatim>\<open>Ready\<close>.
\<close>

theorem create_tasks_empty_sweep:
  "\<exists>d. sweep_parameter d = SweepParameter_bias \<and>
       to_float (sweep_start d) < to_float (sweep_stop d) \<and>
       to_float (sweep_step d) < 0 \<and>
       create_tasks ff d = Inr [] \<and>
       (\<exists>ts. TaskSet_init ff d idx = Inr ts \<and> tasks ts = [] \<and> status ts = Ready)"
proof -
  let ?d = "sweep_data SweepParameter_bias 0 1 (- 1)"
  have p: "sweep_parameter ?d = SweepParameter_bias" by (simp add: sweep_data_def)
  have a: "to_float (sweep_start ?d) = 0" and b: "to_float (sweep_stop ?d) = 1"
    and s: "to_float (sweep_step ?d) = - 1"
    by (simp_all add: sweep_data_def to_float_unit_exponent)
  have c: "create_tasks ff ?d = Inr []"
    by (rule create_tasks_no_values) (simp_all add: p a b s)
  have "\<exists>ts. TaskSet_init ff ?d idx = Inr ts \<and> tasks ts = [] \<and> status ts = Ready"
    by (simp add: TaskSet_init_def c)
  then show ?thesis using p a b s c by (intro exI [of _ ?d]) simp
qed

subsection \<open>Status and progress\<close>



text \<open>
  Claim C3 asks that the progress of a task set without items be \<open>0\<close> and that computing it
  never raise. The sweep from \<open>0\<close> to \<open>1\<close> in steps of \<open>-1\<close> gives a task set without items;
  on it \<^verbatim>\<open>update_task_bar\<close> raises \<^verbatim>\<open>ZeroDivisionError\<close> and stores no value, and so does every
  \<^verbatim>\<open>setStatus\<close>.
\<close>

theorem update_task_bar_empty_raises:
  "TaskSet_init unit_exponent (sweep_data SweepParameter_bias 0 1 (- 1)) 0 =
     Inr (empty_set (sweep_data SweepParameter_bias 0 1 (- 1))) \<and>
   update_task_bar (empty_set (sweep_data SweepParameter_bias 0 1 (- 1))) =
     (empty_set (sweep_data SweepParameter_bias 0 1 (- 1)), Some ZeroDivisionError) \<and>
   snd (setStatus Working (empty_set (sweep_data SweepParameter_bias 0 1 (- 1)))) =
     Some ZeroDivisionError"
  by code_simp

text \<open>
  Claim C9. Setting the completed flag of item \<open>i\<close> leaves the status, the bar, the index and the
  description of the task set as they were (also when the call raises \<^verbatim>\<open>IndexError\<close>), keeps
  the number of items, and changes no item but \<open>i\<close>, of which only the flag.
\<close>

theorem item_set_completed_frame:
  "status (fst (item_set_completed i val ts)) = status ts \<and>
   task_bar (fst (item_set_completed i val ts)) = task_bar ts \<and>
   index (fst (item_set_completed i val ts)) = index ts \<and>
   data (fst (item_set_completed i val ts)) = data ts \<and>
   length (tasks (fst (item_set_completed i val ts))) = length (tasks ts) \<and>
   (\<forall>j<length (tasks ts).
      tasks (fst (item_set_completed i val ts)) ! j =
        (if j = i then (tasks ts ! j)\<lparr>completed := val\<rparr> else tasks ts ! j))"
  by (simp add: item_set_completed_def set_completed_def nth_list_update)

text \<open>
  A working task set of one image: once the image is completed every item is, and the status
  is still \<^verbatim>\<open>Working\<close>.
\<close>

theorem item_set_completed_frame_witness:
  "status (fst (item_set_completed 0 True (one_item_set Working False))) = Working \<and>
   list_all completed (tasks (fst (item_set_completed 0 True (one_item_set Working False)))) \<and>
   snd (item_set_completed 0 True (one_item_set Working False)) = None"
proof -
  have l: "length (tasks (one_item_set Working False)) = 1"
    and s: "status (one_item_set Working False) = Working"
    by (simp_all add: one_item_set_def)
  have e: "snd (item_set_completed 0 True (one_item_set Working False)) = None"
    by (simp add: item_set_completed_def l)
  from item_set_completed_frame [of 0 True "one_item_set Working False"]
  have st: "status (fst (item_set_completed 0 True (one_item_set Working False))) = Working"
    and len: "length (tasks (fst (item_set_completed 0 True (one_item_set Working False)))) = 1"
    and it: "tasks (fst (item_set_completed 0 True (one_item_set Working False))) ! 0 =
        (tasks (one_item_set Working False) ! 0)\<lparr>completed := True\<rparr>"
    by (simp_all add: l s)
  have "list_all completed (tasks (fst (item_set_completed 0 True (one_item_set Working False))))"
    using len it by (cases "tasks (fst (item_set_completed 0 True (one_item_set Working False)))") simp_all
  then show ?thesis using st e by blast
qed

subsection \<open>Schedule estimators\<close>




text \<open>
  Claim C6 asks that a zero step be answered by an error of its own, without dividing. Both
  estimators divide: with step \<open>0\<close> the floor division raises \<^verbatim>\<open>ZeroDivisionError\<close> and no label
  text is produced.
\<close>

theorem update_total_images_zero_step:
  "update_total_images start stop 0 reps = Inl ZeroDivisionError \<and>
   update_time_to_finish start stop 0 reps ltime lpf = Inl ZeroDivisionError"
  by (simp add: update_total_images_def update_time_to_finish_def images_N_zero_step)



end
